theory Spec2Isabelle
  imports Complex_Main
begin

section \<open>Python and numpy values\<close>

text \<open>
  The repository is Python over numpy and netCDF4.  Floating-point numbers are modelled
  as exact reals: every statement below about thicknesses, weights and means is a statement
  of real arithmetic, which is what the source computes up to rounding.  Exceptions are
  values: a function that can raise returns \<open>exn + 'a\<close>, and a function that also changes
  an open file returns the exception (if any) together with the file as it stands then.
\<close>

datatype pyarg = Str string | Tuple "string list"

datatype exn =
    ValueError pyarg
  | KeyError string
  | IndexError
  | ZeroDivisionError
  | AttributeError string
  | RuntimeError string
  | NotImplementedError string
  | OSError string

text \<open>
  A numpy array is its shape and its elements in row-major (C) order, as numpy stores a
  freshly created array.  A well-formed array has as many elements as its shape says.
\<close>

record ndarray =
  shape :: "nat list"
  data :: "real list"

definition wf_ndarray :: "ndarray \<Rightarrow> bool" where
  "wf_ndarray a = (length (data a) = prod_list (shape a))"

definition array1 :: "real list \<Rightarrow> ndarray" where
  "array1 xs = \<lparr>shape = [length xs], data = xs\<rparr>"

text \<open>\<open>np.zeros(shape)\<close>; \<open>np.empty(shape)\<close> has arbitrary contents, fixed here to zeros.\<close>

definition np_zeros :: "nat list \<Rightarrow> ndarray" where
  "np_zeros s = \<lparr>shape = s, data = replicate (prod_list s) 0\<rparr>"

definition np_empty :: "nat list \<Rightarrow> ndarray" where
  "np_empty s = np_zeros s"

text \<open>The \<open>j\<close>-th block of \<open>m\<close> consecutive elements of a flat list.\<close>

definition block :: "nat \<Rightarrow> real list \<Rightarrow> nat \<Rightarrow> real list" where
  "block m xs j = take m (drop (j * m) xs)"

text \<open>\<open>a[i]\<close> (equally \<open>a[i, :]\<close>, \<open>a[i, :, :]\<close>) for a Python index \<open>i\<close>, which counts
  from the end when negative.  \<open>a[i, :, :]\<close> needs at least \<open>k = 3\<close> axes.\<close>

definition np_index0 :: "nat \<Rightarrow> ndarray \<Rightarrow> int \<Rightarrow> exn + ndarray" where
  "np_index0 k a i =
     (if length (shape a) < k \<or> shape a = [] then Inl IndexError
      else let n = int (hd (shape a)); j = (if i < 0 then n + i else i)
           in if 0 \<le> j \<and> j < n
              then Inr \<lparr>shape = tl (shape a),
                        data = block (prod_list (tl (shape a))) (data a) (nat j)\<rparr>
              else Inl IndexError)"




text \<open>
  \<open>xs * a\<close> for a one-dimensional \<open>xs\<close>, by numpy's broadcasting rule on the last axis: the
  lengths agree, or one of them is 1 and is stretched; anything else raises.  A
  zero-dimensional \<open>a\<close> scales \<open>xs\<close>.
\<close>

definition np_mul_1d :: "real list \<Rightarrow> ndarray \<Rightarrow> exn + ndarray" where
  "np_mul_1d xs a =
     (let n = length xs
      in if shape a = [] then Inr \<lparr>shape = [n], data = map (\<lambda>x. x * hd (data a)) xs\<rparr>
         else
           let m = last (shape a);
               lead = butlast (shape a);
               rows = map (block m (data a)) [0..<prod_list lead]
           in if m = n
              then Inr \<lparr>shape = shape a,
                        data = concat (map (\<lambda>row. map2 (\<lambda>x v. x * v) xs row) rows)\<rparr>
              else if m = 1
              then Inr \<lparr>shape = lead @ [n],
                        data = concat (map (\<lambda>row. map (\<lambda>x. x * hd row) xs) rows)\<rparr>
              else if n = 1
              then Inr \<lparr>shape = shape a, data = map (\<lambda>v. hd xs * v) (data a)\<rparr>
              else Inl (ValueError (Str ''operands could not be broadcast together'')))"

text \<open>\<open>a.sum(axis=-1)\<close>.\<close>

definition np_sum_last :: "ndarray \<Rightarrow> exn + ndarray" where
  "np_sum_last a =
     (if shape a = [] then Inl (ValueError (Str ''axis -1 is out of bounds''))
      else Inr \<lparr>shape = butlast (shape a),
                data = map (\<lambda>j. sum_list (block (last (shape a)) (data a) j))
                         [0..<prod_list (butlast (shape a))]\<rparr>)"






text \<open>
  Assignment \<open>dst[...] = src\<close> broadcasts \<open>src\<close> to the shape of the target: leading axes of
  length 1 that the target does not have are dropped, missing leading axes are added, and
  each remaining axis must have the target's length or length 1.
\<close>

fun strip_ones :: "nat \<Rightarrow> nat list \<Rightarrow> nat list" where
  "strip_ones k (s # ss) = (if k < length (s # ss) \<and> s = 1 then strip_ones k ss else s # ss)"
| "strip_ones k [] = []"

fun bcast_data :: "nat list \<Rightarrow> nat list \<Rightarrow> real list \<Rightarrow> real list" where
  "bcast_data (s # ss) (t # ts) xs =
     (if s = t then concat (map (\<lambda>j. bcast_data ss ts (block (prod_list ss) xs j)) [0..<s])
      else concat (replicate t (bcast_data ss ts xs)))"
| "bcast_data _ _ xs = xs"

definition np_broadcast_to :: "nat list \<Rightarrow> ndarray \<Rightarrow> ndarray option" where
  "np_broadcast_to target a =
     (let s = strip_ones (length target) (shape a)
      in if length target < length s then None
         else let padded = replicate (length target - length s) 1 @ s
              in if list_all2 (\<lambda>s t. s = t \<or> s = 1) padded target
                 then Some \<lparr>shape = target, data = bcast_data padded target (data a)\<rparr>
                 else None)"

text \<open>\<open>dst[ind, :] = src\<close> for \<open>ind\<close> within the first axis of \<open>dst\<close>.\<close>

definition np_assign_row :: "ndarray \<Rightarrow> nat \<Rightarrow> ndarray \<Rightarrow> exn + ndarray" where
  "np_assign_row dst ind src =
     (let m = prod_list (tl (shape dst))
      in case np_broadcast_to (tl (shape dst)) src of
           None \<Rightarrow> Inl (ValueError (Str ''could not broadcast input array''))
         | Some b \<Rightarrow>
             Inr (dst\<lparr>data := take (ind * m) (data dst) @ data b @ drop (Suc ind * m) (data dst)\<rparr>))"

text \<open>\<open>np.interp(x, xp, fp)\<close> for increasing sample points \<open>xp\<close>: linear between two
  samples, constant outside them.\<close>

fun interp_pts :: "(real \<times> real) list \<Rightarrow> real \<Rightarrow> real" where
  "interp_pts [] x = 0"
| "interp_pts [(x0, f0)] x = f0"
| "interp_pts ((x0, f0) # (x1, f1) # ps) x =
     (if x \<le> x0 then f0
      else if x < x1 then f0 + (x - x0) * ((f1 - f0) / (x1 - x0))
      else interp_pts ((x1, f1) # ps) x)"

definition np_interp :: "real list \<Rightarrow> real list \<Rightarrow> real list \<Rightarrow> exn + real list" where
  "np_interp xs xp fp =
     (if length xp \<noteq> length fp then Inl (ValueError (Str ''fp and xp are not of the same length''))
      else if xp = [] then Inl (ValueError (Str ''array of sample points is empty''))
      else Inr (map (interp_pts (zip xp fp)) xs))"

text \<open>\<open>"%s" % n\<close> for a length.\<close>

fun str_nat :: "nat \<Rightarrow> string" where
  "str_nat n =
     (if n < 10 then [''0123456789'' ! n]
      else str_nat (n div 10) @ [''0123456789'' ! (n mod 10)])"

declare str_nat.simps [simp del]

section \<open>The netCDF4 file interface\<close>

text \<open>
  A netCDF dataset has named dimensions, named variables (each with a tuple of dimension
  names, string attributes and values) and file-level attributes.  A file system maps a
  path to the dataset stored there.
\<close>

record nc_var =
  var_dimensions :: "string list"
  var_attrs :: "string \<rightharpoonup> string"
  var_vals :: ndarray

record nc_file =
  dimensions :: "string \<rightharpoonup> nat"
  variables :: "string \<rightharpoonup> nc_var"
  file_attrs :: "string \<rightharpoonup> string"

type_synonym filesystem = "string \<rightharpoonup> nc_file"

text \<open>A Python dict keeps insertion order; assigning to a key that is present replaces its
  value in place.  Two dicts are equal (\<open>==\<close>) when they hold the same keys with the same
  values, whatever the order.\<close>

type_synonym ('k, 'v) dict = "('k \<times> 'v) list"

fun dict_set :: "('k, 'v) dict \<Rightarrow> 'k \<Rightarrow> 'v \<Rightarrow> ('k, 'v) dict" where
  "dict_set [] k v = [(k, v)]"
| "dict_set ((k', v') # d) k v = (if k' = k then (k, v) # d else (k', v') # dict_set d k v)"

definition dict_of_items :: "('k \<times> 'v) list \<Rightarrow> ('k, 'v) dict" where
  "dict_of_items kvs = foldl (\<lambda>d (k, v). dict_set d k v) [] kvs"

definition dict_eq :: "('k, 'v) dict \<Rightarrow> ('k, 'v) dict \<Rightarrow> bool" where
  "dict_eq a b = (length a = length b \<and> list_all (\<lambda>(k, v). map_of b k = Some v) a)"

section \<open>test\_problem/spatial\_axis.py\<close>

subsection \<open>Axis definitions\<close>

text \<open>
  A \<open>defn_dict\<close> maps each of the six required keys to a value of the type its entry
  declares (\<open>defn_dict[key]["value"]\<close>).  \<open>spatial_axis_defn_dict\<close> builds one from the
  defaults for the axis name and the caller's keyword arguments; while it is being built a
  value may still be \<open>None\<close>.
\<close>

record defn_dict =
  d_axisname :: string
  d_units :: string
  d_nlevs :: int
  d_edge_start :: real
  d_edge_end :: real
  d_delta_ratio_max :: real

record defn_partial =
  p_axisname :: "string option"
  p_units :: "string option"
  p_nlevs :: "int option"
  p_edge_start :: "real option"
  p_edge_end :: "real option"
  p_delta_ratio_max :: "real option"

text \<open>One keyword argument: a known key with its value, or any other key.\<close>

datatype kwarg =
    Kw_units "string option"
  | Kw_nlevs "int option"
  | Kw_edge_start "real option"
  | Kw_edge_end "real option"
  | Kw_delta_ratio_max "real option"
  | Kw_unknown string

fun set_kwarg :: "bool \<Rightarrow> defn_partial \<Rightarrow> kwarg \<Rightarrow> exn + defn_partial" where
  "set_kwarg trap p (Kw_units v) = Inr (p\<lparr>p_units := v\<rparr>)"
| "set_kwarg trap p (Kw_nlevs v) = Inr (p\<lparr>p_nlevs := v\<rparr>)"
| "set_kwarg trap p (Kw_edge_start v) = Inr (p\<lparr>p_edge_start := v\<rparr>)"
| "set_kwarg trap p (Kw_edge_end v) = Inr (p\<lparr>p_edge_end := v\<rparr>)"
| "set_kwarg trap p (Kw_delta_ratio_max v) = Inr (p\<lparr>p_delta_ratio_max := v\<rparr>)"
| "set_kwarg trap p (Kw_unknown key) =
     (if trap then Inl (ValueError (Str (''unknown key '' @ key))) else Inr p)"

fun set_kwargs :: "bool \<Rightarrow> defn_partial \<Rightarrow> kwarg list \<Rightarrow> exn + defn_partial" where
  "set_kwargs trap p [] = Inr p"
| "set_kwargs trap p (kw # kws) =
     (case set_kwarg trap p kw of Inl e \<Rightarrow> Inl e | Inr p' \<Rightarrow> set_kwargs trap p' kws)"

definition not_set :: "string \<Rightarrow> exn + 'a" where
  "not_set key = Inl (ValueError (Str (''value for key '' @ key @ '' not set'')))"

text \<open>The last loop of \<open>spatial_axis_defn_dict\<close>: the first key, in the dict's order,
  whose value is \<open>None\<close> raises.\<close>

definition ensure_set :: "defn_partial \<Rightarrow> exn + defn_dict" where
  "ensure_set p =
     (case p_axisname p of None \<Rightarrow> not_set ''axisname'' | Some a \<Rightarrow>
      case p_units p of None \<Rightarrow> not_set ''units'' | Some u \<Rightarrow>
      case p_nlevs p of None \<Rightarrow> not_set ''nlevs'' | Some n \<Rightarrow>
      case p_edge_start p of None \<Rightarrow> not_set ''edge_start'' | Some e0 \<Rightarrow>
      case p_edge_end p of None \<Rightarrow> not_set ''edge_end'' | Some e1 \<Rightarrow>
      case p_delta_ratio_max p of None \<Rightarrow> not_set ''delta_ratio_max'' | Some r \<Rightarrow>
        Inr \<lparr>d_axisname = a, d_units = u, d_nlevs = n, d_edge_start = e0,
             d_edge_end = e1, d_delta_ratio_max = r\<rparr>)"

definition spatial_axis_defn_dict ::
    "string option \<Rightarrow> bool \<Rightarrow> kwarg list \<Rightarrow> exn + defn_dict" where
  "spatial_axis_defn_dict axisname trap_unknown kwargs =
     (let framework = \<lparr>p_axisname = axisname, p_units = None, p_nlevs = None,
            p_edge_start = None, p_edge_end = None, p_delta_ratio_max = None\<rparr>;
          defaults = (if axisname = Some ''depth''
            then framework\<lparr>p_units := Some ''m'', p_nlevs := Some 30, p_edge_start := Some 0,
                   p_edge_end := Some 900, p_delta_ratio_max := Some 5\<rparr>
            else framework)
      in case set_kwargs trap_unknown defaults kwargs of
           Inl e \<Rightarrow> Inl e
         | Inr p \<Rightarrow> ensure_set p)"

subsection \<open>Edge generation\<close>

text \<open>\<open>np.linspace(start, stop, num)\<close>: \<open>num\<close> evenly spaced samples, the last one
  \<open>stop\<close>; a single sample is \<open>start\<close>; a negative \<open>num\<close> raises.\<close>

definition np_linspace :: "real \<Rightarrow> real \<Rightarrow> int \<Rightarrow> exn + real list" where
  "np_linspace start stop num =
     (if num < 0 then Inl (ValueError (Str ''Number of samples must be non-negative''))
      else if num = 1 then Inr [start]
      else Inr (map (\<lambda>i. start + real i * ((stop - start) / real_of_int (num - 1)))
                  [0..<nat num]))"

definition stretch_fcn :: "real \<Rightarrow> real" where
  "stretch_fcn coord = 0.125 * coord * (15 + coord * coord * (3 * coord * coord - 10))"

fun cumsum_from :: "real \<Rightarrow> real list \<Rightarrow> real list" where
  "cumsum_from acc [] = []"
| "cumsum_from acc (x # xs) = (acc + x) # cumsum_from (acc + x) xs"

definition cumsum :: "real list \<Rightarrow> real list" where
  "cumsum xs = cumsum_from 0 xs"

text \<open>The body of \<open>_gen_edges\<close> up to its local \<open>delta\<close>, in the source's order of
  evaluation: \<open>np.linspace\<close> first, then \<open>1.0 / nlevs\<close> (a Python int, so zero raises),
  then the test of \<open>delta_ratio_max\<close>.\<close>

definition gen_delta :: "defn_dict \<Rightarrow> exn + real list" where
  "gen_delta d =
     (let nlevs = d_nlevs d
      in case np_linspace (- 1) 1 nlevs of
           Inl e \<Rightarrow> Inl e
         | Inr coord \<Rightarrow>
            let stretch = map stretch_fcn coord
            in if nlevs = 0 then Inl ZeroDivisionError
               else
                 let delta_avg = (1 / real_of_int nlevs) * (d_edge_end d - d_edge_start d);
                     delta_ratio_max = d_delta_ratio_max d
                 in if delta_ratio_max < 1
                    then Inl (ValueError (Str ''delta_ratio_max must be >= 1.0''))
                    else
                      let stretch_factor =
                            delta_avg * (delta_ratio_max - 1) / (delta_ratio_max + 1)
                      in Inr (map (\<lambda>s. delta_avg + stretch_factor * s) stretch))"

text \<open>\<open>_gen_edges\<close>: \<open>edges[0] = edge_start\<close>, \<open>edges[1:] = edge_start + delta.cumsum()\<close>.\<close>

definition gen_edges :: "defn_dict \<Rightarrow> exn + real list" where
  "gen_edges d =
     (case gen_delta d of
        Inl e \<Rightarrow> Inl e
      | Inr delta \<Rightarrow> Inr (d_edge_start d # map (\<lambda>c. d_edge_start d + c) (cumsum delta)))"

subsection \<open>The SpatialAxis class\<close>

text \<open>
  Where the axis came from: the \<open>defn_dict_values\<close> attribute of the file it was read from,
  or the \<open>key=value\<close> lines of the definition it was generated from (kept here as the
  definition itself; the formatting of numbers as text is not modelled).
\<close>

datatype provenance = From_file string | From_defn defn_dict

text \<open>\<open>1.0 / x\<close> on a numpy array does not raise where \<open>x\<close> is zero: the result there is
  infinite.  \<open>None\<close> stands for such a non-finite reciprocal.\<close>

definition np_recip :: "real \<Rightarrow> real option" where
  "np_recip x = (if x = 0 then None else Some (1 / x))"

text \<open>\<open>np.ediff1d\<close>, and equally \<open>a[1:] - a[:-1]\<close>: the differences of consecutive
  elements.\<close>

definition np_ediff1d :: "real list \<Rightarrow> real list" where
  "np_ediff1d xs = map2 (\<lambda>hi lo. hi - lo) (tl xs) (butlast xs)"

record spatial_axis =
  axisname :: string
  units :: string
  edges :: "real list"
  defn_dict_values :: "provenance option"
  nlevs :: int
  mid :: "real list"
  delta :: "real list"
  delta_r :: "real option list"
  delta_mid :: "real list"
  delta_mid_r :: "real option list"
  dump_names :: "(string, string) dict"

text \<open>Lines 68 to 79 of \<open>__init__\<close>: everything else is derived from the edges.\<close>

definition axis_of_edges ::
    "string \<Rightarrow> string \<Rightarrow> real list \<Rightarrow> provenance option \<Rightarrow> spatial_axis" where
  "axis_of_edges name un es prov =
     (let m = map2 (\<lambda>lo hi. 0.5 * (lo + hi)) (butlast es) (tl es);
          dl = map2 (\<lambda>hi lo. hi - lo) (tl es) (butlast es)
      in \<lparr>axisname = name, units = un, edges = es, defn_dict_values = prov,
           nlevs = int (length es) - 1,
           mid = m, delta = dl, delta_r = map np_recip dl,
           delta_mid = np_ediff1d m, delta_mid_r = map np_recip (np_ediff1d m),
           dump_names = [(''bounds'', name @ ''_bounds''), (''edges'', name @ ''_edges''),
                         (''delta'', name @ ''_delta'')]\<rparr>)"

text \<open>
  \<open>SpatialAxis.__init__(axisname, fname, defn_dict)\<close>.  Read from a file, the edges are the
  values of the one-dimensional variable \<open>axisname + "_edges"\<close>, taken as they are stored.
\<close>

definition spatial_axis_init ::
    "filesystem \<Rightarrow> string option \<Rightarrow> string option \<Rightarrow> defn_dict option \<Rightarrow> exn + spatial_axis" where
  "spatial_axis_init fs axisname_arg fname defn_dict_arg =
     (case fname of
        Some path \<Rightarrow>
          if defn_dict_arg \<noteq> None
          then Inl (ValueError (Str ''fname and defn_dict cannot both be provided''))
          else (case axisname_arg of
              None \<Rightarrow> Inl (ValueError
                (Str ''if fname is provided then axisname must be provided also''))
            | Some name \<Rightarrow>
               (case fs path of
                  None \<Rightarrow> Inl (OSError path)
                | Some fptr \<Rightarrow>
                   (case variables fptr (name @ ''_edges'') of
                      None \<Rightarrow> Inl (KeyError (name @ ''_edges''))
                    | Some v \<Rightarrow>
                       (case var_attrs v ''units'' of
                          None \<Rightarrow> Inl (AttributeError ''units'')
                        | Some un \<Rightarrow>
                            Inr (axis_of_edges name un (data (var_vals v))
                                  (map_option From_file (file_attrs fptr ''defn_dict_values'')))))))
      | None \<Rightarrow>
          (case (case defn_dict_arg of
                   Some d \<Rightarrow>
                     if axisname_arg \<noteq> None
                     then Inl (ValueError (Str ''defn_dict and axisname cannot both be provided''))
                     else Inr d
                 | None \<Rightarrow> spatial_axis_defn_dict axisname_arg True []) of
             Inl e \<Rightarrow> Inl e
           | Inr d \<Rightarrow>
              (case gen_edges d of
                 Inl e \<Rightarrow> Inl e
               | Inr es \<Rightarrow> Inr (axis_of_edges (d_axisname d) (d_units d) es (Some (From_defn d))))))"

text \<open>\<open>__len__\<close> returns \<open>_nlevs\<close>; Python's \<open>len\<close> raises when that is negative.\<close>

definition axis_len :: "spatial_axis \<Rightarrow> int" where
  "axis_len ax = nlevs ax"

definition py_len :: "spatial_axis \<Rightarrow> exn + nat" where
  "py_len ax =
     (if axis_len ax < 0 then Inl (ValueError (Str ''__len__() should return >= 0''))
      else Inr (nat (axis_len ax)))"

section \<open>Operations on an open netCDF file\<close>

text \<open>
  An operation on an open file returns the exception it raised, if any, and the file as the
  operation left it.  \<open>and_then\<close> runs the next operation unless the first one raised;
  \<open>for_each\<close> is a \<open>for\<close> loop whose body works on the file.
\<close>

type_synonym outcome = "exn option \<times> nc_file"

definition and_then :: "outcome \<Rightarrow> (nc_file \<Rightarrow> outcome) \<Rightarrow> outcome" where
  "and_then r k = (case r of (None, f) \<Rightarrow> k f | (Some e, f) \<Rightarrow> (Some e, f))"

fun for_each :: "'a list \<Rightarrow> ('a \<Rightarrow> nc_file \<Rightarrow> outcome) \<Rightarrow> nc_file \<Rightarrow> outcome" where
  "for_each [] body f = (None, f)"
| "for_each (x # xs) body f = and_then (body x f) (for_each xs body)"

text \<open>A computation that does not touch the file, followed by one that does.\<close>

definition with_value :: "exn + 'a \<Rightarrow> ('a \<Rightarrow> nc_file \<Rightarrow> outcome) \<Rightarrow> nc_file \<Rightarrow> outcome" where
  "with_value v k f = (case v of Inl e \<Rightarrow> (Some e, f) | Inr x \<Rightarrow> k x f)"

text \<open>
  \<open>fptr.variables[name][:] = vals\<close>: a variable that was never defined raises KeyError.
  The library's own comparison of the value's shape with the variable's is not modelled:
  the variable holds what was assigned.
\<close>

definition nc_put :: "string \<Rightarrow> ndarray \<Rightarrow> nc_file \<Rightarrow> outcome" where
  "nc_put name v f =
     (case variables f name of
        None \<Rightarrow> (Some (KeyError name), f)
      | Some var \<Rightarrow> (None, f\<lparr>variables := (variables f)(name \<mapsto> var\<lparr>var_vals := v\<rparr>)\<rparr>))"

text \<open>\<open>fptr.variables[name][:, j] = col\<close> on a two-dimensional variable.\<close>

definition nc_put_column :: "string \<Rightarrow> nat \<Rightarrow> real list \<Rightarrow> nc_file \<Rightarrow> outcome" where
  "nc_put_column name j col f =
     (case variables f name of
        None \<Rightarrow> (Some (KeyError name), f)
      | Some var \<Rightarrow>
          let a = var_vals var
          in if length (shape a) \<noteq> 2 then (Some IndexError, f)
             else
               let ncols = last (shape a);
                   d = fold (\<lambda>i d. d[i * ncols + j := col ! i]) [0..<length col] (data a)
               in (None, f\<lparr>variables := (variables f)(name \<mapsto> var\<lparr>var_vals := a\<lparr>data := d\<rparr>\<rparr>)\<rparr>))"

text \<open>\<open>fptr.createVariable(name, "f8", dimensions)\<close>: the name must be new and the dimensions
  defined; the new variable holds the fill value.\<close>

definition nc_fill_double :: real where
  "nc_fill_double = 9969209968386869 * 10 ^ 21"

definition nc_createVariable ::
    "string \<Rightarrow> string list \<Rightarrow> (string, string) dict \<Rightarrow> nc_file \<Rightarrow> outcome" where
  "nc_createVariable name dimnames attrs f =
     (if variables f name \<noteq> None then (Some (RuntimeError ''NetCDF: String match to name in use''), f)
      else if \<not> list_all (\<lambda>dn. dimensions f dn \<noteq> None) dimnames
      then (Some (KeyError (hd (filter (\<lambda>dn. dimensions f dn = None) dimnames))), f)
      else
        let s = map (\<lambda>dn. the (dimensions f dn)) dimnames;
            var = \<lparr>var_dimensions = dimnames, var_attrs = map_of attrs,
                   var_vals = \<lparr>shape = s, data = replicate (prod_list s) nc_fill_double\<rparr>\<rparr>
        in (None, f\<lparr>variables := (variables f)(name \<mapsto> var)\<rparr>))"

text \<open>
  Modelled from the spec: \<open>utils.create_dimension_exist_okay\<close>, \<open>utils.create_dimensions_verify\<close>
  and \<open>utils.create_vars\<close> are not among the sources.  The spec's define phase creates all
  dimensions, skipping ones that already exist with a matching length and failing if an
  existing dimension has a conflicting length, and then declares the variables.
\<close>

definition create_dimension_exist_okay :: "string \<Rightarrow> nat \<Rightarrow> nc_file \<Rightarrow> outcome" where
  "create_dimension_exist_okay dimname dimlen f =
     (case dimensions f dimname of
        None \<Rightarrow> (None, f\<lparr>dimensions := (dimensions f)(dimname \<mapsto> dimlen)\<rparr>)
      | Some n \<Rightarrow>
          if n = dimlen then (None, f)
          else (Some (ValueError (Str (''dimension '' @ dimname @ '' exists with another length''))), f))"

definition create_dimensions_verify :: "(string, nat) dict \<Rightarrow> nc_file \<Rightarrow> outcome" where
  "create_dimensions_verify dims f =
     for_each dims (\<lambda>(dimname, dimlen). create_dimension_exist_okay dimname dimlen) f"

text \<open>One entry of a \<open>vars_metadata\<close> dict: the variable's dimensions and its attributes
  (none when the entry has no \<open>"attrs"\<close>).\<close>

type_synonym vars_metadata = "(string, string list \<times> (string, string) dict) dict"

definition create_vars :: "vars_metadata \<Rightarrow> nc_file \<Rightarrow> outcome" where
  "create_vars md f =
     for_each md (\<lambda>(name, dimnames, attrs). nc_createVariable name dimnames attrs) f"

subsection \<open>Dumping a SpatialAxis into an open file\<close>

definition dump_name :: "spatial_axis \<Rightarrow> string \<Rightarrow> string" where
  "dump_name ax key = the (map_of (dump_names ax) key)"

definition dump_dimensions :: "spatial_axis \<Rightarrow> exn + (string, nat) dict" where
  "dump_dimensions ax =
     (case py_len ax of
        Inl e \<Rightarrow> Inl e
      | Inr n \<Rightarrow> Inr (dict_of_items
          [(axisname ax, n), (''nbnds'', 2), (dump_name ax ''edges'', n + 1)]))"

definition dump_vars_metadata :: "spatial_axis \<Rightarrow> vars_metadata" where
  "dump_vars_metadata ax =
     dict_of_items
       [(axisname ax,
           ([axisname ax],
            [(''long_name'', axisname ax @ '' layer midpoints''), (''units'', units ax),
             (''bounds'', dump_name ax ''bounds'')])),
        (dump_name ax ''bounds'',
           ([axisname ax, ''nbnds''], [(''long_name'', axisname ax @ '' layer bounds'')])),
        (dump_name ax ''edges'',
           ([dump_name ax ''edges''],
            [(''long_name'', axisname ax @ '' layer edges''), (''units'', units ax)])),
        (dump_name ax ''delta'',
           ([axisname ax],
            [(''long_name'', axisname ax @ '' layer thickness''), (''units'', units ax)]))]"

definition dump_write :: "spatial_axis \<Rightarrow> nc_file \<Rightarrow> outcome" where
  "dump_write ax fptr =
     and_then (nc_put (axisname ax) (array1 (mid ax)) fptr) (\<lambda>fptr.
     and_then (nc_put_column (dump_name ax ''bounds'') 0 (butlast (edges ax)) fptr) (\<lambda>fptr.
     and_then (nc_put_column (dump_name ax ''bounds'') 1 (tl (edges ax)) fptr) (\<lambda>fptr.
     and_then (nc_put (dump_name ax ''edges'') (array1 (edges ax)) fptr) (\<lambda>fptr.
       nc_put (dump_name ax ''delta'') (array1 (delta ax)) fptr))))"

text \<open>\<open>int_vals_mid(vals)\<close> is \<open>(self.delta * vals).sum(axis=-1)\<close>.\<close>

definition int_vals_mid :: "spatial_axis \<Rightarrow> ndarray \<Rightarrow> exn + ndarray" where
  "int_vals_mid ax vals =
     (case np_mul_1d (delta ax) vals of
        Inl e \<Rightarrow> Inl e
      | Inr weighted \<Rightarrow> np_sum_last weighted)"

section \<open>Tracer module states\<close>

text \<open>
  Modelled from the spec: the base class \<open>TracerModuleStateBase\<close> is not among the sources.
  By the spec a tracer module has a name and an ordered mapping from tracer name to per-tracer
  metadata (attributes, optionally an initial profile of depth samples and values, optionally
  the name of a tracer it shadows); \<open>tracer_names()\<close> lists the names in order and
  \<open>tracer_cnt\<close> counts them.  The state keeps the values and the dimensions that
  \<open>_read_vals\<close> returned.
\<close>

record tracer_metadata =
  tm_attrs :: "(string, string) dict"
  init_iterate_vals :: "real list option"
  init_iterate_val_depths :: "real list option"
  shadows :: "string option"

type_synonym tracers_metadata = "(string, tracer_metadata) dict"

definition tracer_names :: "tracers_metadata \<Rightarrow> string list" where
  "tracer_names tracers = map fst tracers"

definition tracer_cnt :: "tracers_metadata \<Rightarrow> nat" where
  "tracer_cnt tracers = length (tracer_names tracers)"

text \<open>The state of the test\_problem variant, with its depth axis.\<close>

record tp_state =
  tp_tracer_module_name :: string
  tp_tracers :: tracers_metadata
  tp_vals :: ndarray
  tp_dimensions :: "(string, nat) dict"
  tp_depth :: spatial_axis

text \<open>The state of the cime\_pop variant.\<close>

record cp_state =
  cp_tracer_module_name :: string
  cp_tracers :: tracers_metadata
  cp_vals :: ndarray
  cp_dims :: "(string, nat) dict"

subsection \<open>Reading values\<close>

text \<open>A dict from the names of a variable's dimensions to their lengths, filled in the
  order of the variable's dimension tuple (\<open>{dim.name: dim.size for dim in var.get_dims()}\<close>).\<close>

fun dims_dict :: "nc_file \<Rightarrow> string list \<Rightarrow> (string, nat) dict \<Rightarrow> exn + (string, nat) dict" where
  "dims_dict fptr [] d = Inr d"
| "dims_dict fptr (n # ns) d =
     (case dimensions fptr n of
        None \<Rightarrow> Inl (KeyError n)
      | Some l \<Rightarrow> dims_dict fptr ns (dict_set d n l))"

text \<open>
  Modelled from the spec: \<open>utils.extract_dimensions\<close> is not among the sources.  By the spec
  it determines the dimension set of a stored variable; \<open>_read_vals\<close> uses what it returns as
  a dict from dimension name to length (\<open>dimensions.values()\<close>, \<open>len(dimensions)\<close>, and the
  other branches return \<open>{"depth": len(self.depth)}\<close> in its place).
\<close>

definition extract_dimensions :: "nc_file \<Rightarrow> string \<Rightarrow> exn + (string, nat) dict" where
  "extract_dimensions fptr varname =
     (case variables fptr varname of
        None \<Rightarrow> Inl (KeyError varname)
      | Some v \<Rightarrow> dims_dict fptr (var_dimensions v) [])"

definition msg_not_same :: "string \<Rightarrow> string \<Rightarrow> string" where
  "msg_not_same tracer_module_name fname =
     ''not all vars have same dimensions'' @ '', tracer_module_name='' @ tracer_module_name
       @ '', fname='' @ fname"

definition msg_ndim :: "string \<Rightarrow> string \<Rightarrow> nat \<Rightarrow> string" where
  "msg_ndim tracer_module_name fname n =
     ''ndim too large (for implementation of dot_prod)'' @ ''tracer_module_name=''
       @ tracer_module_name @ '', fname='' @ fname @ '', ndim='' @ str_nat n"

text \<open>The last loop of both \<open>_read_vals\<close>: \<open>vals[tracer_ind, :] = fptr.variables[name][:]\<close>.\<close>

fun read_tracers :: "nc_file \<Rightarrow> string \<Rightarrow> (nat \<times> string) list \<Rightarrow> ndarray \<Rightarrow> exn + ndarray" where
  "read_tracers fptr suffix [] vals = Inr vals"
| "read_tracers fptr suffix ((tracer_ind, tracer_name) # rest) vals =
     (case variables fptr (tracer_name @ suffix) of
        None \<Rightarrow> Inl (KeyError (tracer_name @ suffix))
      | Some var \<Rightarrow>
         (case np_assign_row vals tracer_ind (var_vals var) of
            Inl e \<Rightarrow> Inl e
          | Inr vals' \<Rightarrow> read_tracers fptr suffix rest vals'))"

text \<open>test\_problem: the loop that compares every tracer's dimensions, as dicts, with the
  first tracer's.\<close>

fun tp_check_dims ::
    "nc_file \<Rightarrow> (string, nat) dict \<Rightarrow> string \<Rightarrow> string \<Rightarrow> string list \<Rightarrow> exn + unit" where
  "tp_check_dims fptr dims tracer_module_name fname [] = Inr ()"
| "tp_check_dims fptr dims tracer_module_name fname (tracer_name # rest) =
     (case extract_dimensions fptr tracer_name of
        Inl e \<Rightarrow> Inl e
      | Inr d \<Rightarrow>
          if \<not> dict_eq d dims
          then Inl (ValueError (Str (msg_not_same tracer_module_name fname)))
          else tp_check_dims fptr dims tracer_module_name fname rest)"

text \<open>test\_problem: one tracer's row of the generated initial iterate.\<close>

definition init_iterate_row ::
    "tracers_metadata \<Rightarrow> spatial_axis \<Rightarrow> string \<Rightarrow> tracer_metadata \<Rightarrow> exn + real list" where
  "init_iterate_row tracers depth tracer_name md =
     (case init_iterate_vals md of
        Some fp \<Rightarrow>
          (case init_iterate_val_depths md of
             None \<Rightarrow> Inl (KeyError ''init_iterate_val_depths'')
           | Some xp \<Rightarrow> np_interp (mid depth) xp fp)
      | None \<Rightarrow>
          (case shadows md of
             Some shadowed_tracer \<Rightarrow>
               (case map_of tracers shadowed_tracer of
                  None \<Rightarrow> Inl (KeyError shadowed_tracer)
                | Some smd \<Rightarrow>
                   (case init_iterate_val_depths smd of
                      None \<Rightarrow> Inl (KeyError ''init_iterate_val_depths'')
                    | Some xp \<Rightarrow>
                       (case init_iterate_vals smd of
                          None \<Rightarrow> Inl (KeyError ''init_iterate_vals'')
                        | Some fp \<Rightarrow> np_interp (mid depth) xp fp)))
           | None \<Rightarrow> Inl (ValueError (Str (''gen_init_iterate failure for '' @ tracer_name)))))"

fun gen_init_iterate ::
    "tracers_metadata \<Rightarrow> spatial_axis \<Rightarrow> (nat \<times> string \<times> tracer_metadata) list \<Rightarrow> ndarray
       \<Rightarrow> exn + ndarray" where
  "gen_init_iterate tracers depth [] vals = Inr vals"
| "gen_init_iterate tracers depth ((tracer_ind, tracer_name, md) # rest) vals =
     (case init_iterate_row tracers depth tracer_name md of
        Inl e \<Rightarrow> Inl e
      | Inr row \<Rightarrow>
         (case np_assign_row vals tracer_ind (array1 row) of
            Inl e \<Rightarrow> Inl e
          | Inr vals' \<Rightarrow> gen_init_iterate tracers depth rest vals'))"

text \<open>test\_problem \<open>_read_vals\<close>, the part inside \<open>with Dataset(fname) as fptr\<close>.\<close>

definition tp_read_file ::
    "nc_file \<Rightarrow> tracers_metadata \<Rightarrow> string \<Rightarrow> string \<Rightarrow> exn + ndarray \<times> (string, nat) dict" where
  "tp_read_file fptr tracers tracer_module_name fname =
     (case tracer_names tracers of
        [] \<Rightarrow> Inl IndexError
      | varname # _ \<Rightarrow>
         (case extract_dimensions fptr varname of
            Inl e \<Rightarrow> Inl e
          | Inr dims \<Rightarrow>
             let vals = np_empty (tracer_cnt tracers # map snd dims)
             in (case tp_check_dims fptr dims tracer_module_name fname (tracer_names tracers) of
                   Inl e \<Rightarrow> Inl e
                 | Inr _ \<Rightarrow>
                     if length dims > 3
                     then Inl (ValueError (Str (msg_ndim tracer_module_name fname (length dims))))
                     else (case read_tracers fptr [] (enumerate 0 (tracer_names tracers)) vals of
                             Inl e \<Rightarrow> Inl e
                           | Inr vals' \<Rightarrow> Inr (vals', dims)))))"

definition tp_read_vals ::
    "filesystem \<Rightarrow> tracers_metadata \<Rightarrow> spatial_axis \<Rightarrow> string \<Rightarrow> string
       \<Rightarrow> exn + ndarray \<times> (string, nat) dict" where
  "tp_read_vals fs tracers depth tracer_module_name fname =
     (if fname = ''zeros''
      then (case py_len depth of
              Inl e \<Rightarrow> Inl e
            | Inr n \<Rightarrow> Inr (np_zeros [length tracers, n], [(''depth'', n)]))
      else if fname = ''gen_init_iterate''
      then (case py_len depth of
              Inl e \<Rightarrow> Inl e
            | Inr n \<Rightarrow>
               (case gen_init_iterate tracers depth (enumerate 0 tracers)
                       (np_empty [length tracers, n]) of
                  Inl e \<Rightarrow> Inl e
                | Inr vals \<Rightarrow> Inr (vals, [(''depth'', n)])))
      else (case fs fname of
              None \<Rightarrow> Inl (OSError fname)
            | Some fptr \<Rightarrow> tp_read_file fptr tracers tracer_module_name fname))"

text \<open>cime\_pop: the loop that compares every tracer's tuple of dimension names with the
  first tracer's.\<close>

fun cp_check_dims ::
    "nc_file \<Rightarrow> string \<Rightarrow> nc_var \<Rightarrow> string \<Rightarrow> string \<Rightarrow> string list \<Rightarrow> exn + unit" where
  "cp_check_dims fptr suffix var0 tracer_module_name fname [] = Inr ()"
| "cp_check_dims fptr suffix var0 tracer_module_name fname (tracer_name # rest) =
     (case variables fptr (tracer_name @ suffix) of
        None \<Rightarrow> Inl (KeyError (tracer_name @ suffix))
      | Some var \<Rightarrow>
          if var_dimensions var \<noteq> var_dimensions var0
          then Inl (ValueError (Str (msg_not_same tracer_module_name fname)))
          else cp_check_dims fptr suffix var0 tracer_module_name fname rest)"

definition cp_read_vals ::
    "filesystem \<Rightarrow> tracers_metadata \<Rightarrow> string \<Rightarrow> string \<Rightarrow> exn + ndarray \<times> (string, nat) dict" where
  "cp_read_vals fs tracers tracer_module_name fname =
     (let suffix = ''_CUR''
      in case fs fname of
           None \<Rightarrow> Inl (OSError fname)
         | Some fptr \<Rightarrow>
            (case tracer_names tracers of
               [] \<Rightarrow> Inl IndexError
             | first_name # _ \<Rightarrow>
                (case variables fptr (first_name @ suffix) of
                   None \<Rightarrow> Inl (KeyError (first_name @ suffix))
                 | Some var0 \<Rightarrow>
                    (case dims_dict fptr (var_dimensions var0) [] of
                       Inl e \<Rightarrow> Inl e
                     | Inr dims \<Rightarrow>
                        let vals = np_empty (tracer_cnt tracers # map snd dims)
                        in (case cp_check_dims fptr suffix var0 tracer_module_name fname
                                   (tracer_names tracers) of
                              Inl e \<Rightarrow> Inl e
                            | Inr _ \<Rightarrow>
                                if length dims > 3
                                then Inl (ValueError
                                       (Str (msg_ndim tracer_module_name fname (length dims))))
                                else (case read_tracers fptr suffix
                                             (enumerate 0 (tracer_names tracers)) vals of
                                        Inl e \<Rightarrow> Inl e
                                      | Inr vals' \<Rightarrow> Inr (vals', dims)))))))"

subsection \<open>Dumping\<close>

text \<open>test\_problem \<open>dump(fptr, action)\<close>.  The message of the last branch is the tuple
  \<open>("unknown action=%s", action)\<close>, as the source builds it.\<close>

definition tp_dump :: "tp_state \<Rightarrow> nc_file \<Rightarrow> string \<Rightarrow> outcome" where
  "tp_dump self fptr action =
     (if action = ''define''
      then
        and_then (create_dimensions_verify (tp_dimensions self) fptr) (\<lambda>fptr.
        with_value (dump_dimensions (tp_depth self)) (\<lambda>depth_dims fptr.
        and_then (create_dimensions_verify depth_dims fptr) (\<lambda>fptr.
        and_then (if variables fptr (axisname (tp_depth self)) = None
                  then create_vars (dump_vars_metadata (tp_depth self)) fptr
                  else (None, fptr)) (\<lambda>fptr.
          let dimnames = map fst (tp_dimensions self);
              vars_metadata = dict_of_items
                (map (\<lambda>tracer_name. (tracer_name, (dimnames, [])))
                   (tracer_names (tp_tracers self)))
          in create_vars vars_metadata fptr))) fptr)
      else if action = ''write''
      then
        and_then (dump_write (tp_depth self) fptr) (\<lambda>fptr.
          for_each (enumerate 0 (tracer_names (tp_tracers self)))
            (\<lambda>(tracer_ind, tracer_name).
               with_value (np_index0 1 (tp_vals self) (int tracer_ind)) (nc_put tracer_name))
            fptr)
      else (Some (ValueError (Tuple [''unknown action=%s'', action])), fptr))"

text \<open>cime\_pop \<open>dump(fptr, action)\<close>; its last message is the tuple
  \<open>("unknown action=", action)\<close>.\<close>

definition cp_dump :: "cp_state \<Rightarrow> nc_file \<Rightarrow> string \<Rightarrow> outcome" where
  "cp_dump self fptr action =
     (if action = ''define''
      then
        and_then
          (for_each (cp_dims self)
             (\<lambda>(dimname, dimlen). create_dimension_exist_okay dimname dimlen) fptr) (\<lambda>fptr.
          let dimnames = map fst (cp_dims self)
          in for_each (tracer_names (cp_tracers self))
               (\<lambda>tracer_name.
                  for_each [''_CUR'', ''_OLD'']
                    (\<lambda>suffix. nc_createVariable (tracer_name @ suffix) dimnames []))
               fptr)
      else if action = ''write''
      then
        for_each (enumerate 0 (tracer_names (cp_tracers self)))
          (\<lambda>(tracer_ind, tracer_name).
             for_each [''_CUR'', ''_OLD'']
               (\<lambda>suffix.
                  with_value (np_index0 1 (cp_vals self) (int tracer_ind))
                    (nc_put (tracer_name @ suffix))))
          fptr
      else (Some (ValueError (Tuple [''unknown action='', action])), fptr))"

section \<open>test\_problem/tracer\_module\_state.py: time weights\<close>


section \<open>test\_problem/tracer\_module\_state.py: history variables\<close>




section \<open>The spec's wording of derived quantities\<close>

text \<open>The time weights as the spec words them: uniform \<open>1/(T-1)\<close>, except the first and
  the last sample, which receive half of that.\<close>

definition trapezoid_weights :: "nat \<Rightarrow> real list" where
  "trapezoid_weights T =
     map (\<lambda>i. if i = 0 \<or> i = T - 1 then 1 / (real T - 1) * 0.5 else 1 / (real T - 1)) [0..<T]"

text \<open>The result of \<open>int_vals_mid\<close> in the spec's words: the sum over the last axis of
  \<open>delta[i] * vals[..., i]\<close>, one sum for every position \<open>j\<close> of the leading axes.\<close>

definition weighted_sum_last :: "real list \<Rightarrow> ndarray \<Rightarrow> ndarray" where
  "weighted_sum_last dl vals =
     \<lparr>shape = butlast (shape vals),
      data = map (\<lambda>j. \<Sum>i\<leftarrow>[0..<length dl]. dl ! i * data vals ! (j * length dl + i))
               [0..<prod_list (butlast (shape vals))]\<rparr>"

text \<open>Names for the locals of \<open>_gen_edges\<close>: the mean thickness, the stretch factor and the
  \<open>i\<close>-th of \<open>n\<close> sample points of \<open>np.linspace(-1.0, 1.0, n)\<close>.\<close>

definition delta_avg :: "defn_dict \<Rightarrow> real" where
  "delta_avg d = (1 / real_of_int (d_nlevs d)) * (d_edge_end d - d_edge_start d)"

definition stretch_factor :: "defn_dict \<Rightarrow> real" where
  "stretch_factor d =
     delta_avg d * (d_delta_ratio_max d - 1) / (d_delta_ratio_max d + 1)"

definition coord_at :: "nat \<Rightarrow> nat \<Rightarrow> real" where
  "coord_at n i = - 1 + real i * (2 / (real n - 1))"



definition stored :: "nc_file \<Rightarrow> string \<Rightarrow> ndarray option" where
  "stored f name = map_option var_vals (variables f name)"

definition put_vals :: "string \<Rightarrow> ndarray \<Rightarrow> nc_file \<Rightarrow> nc_file" where
  "put_vals name v f =
     f\<lparr>variables := (variables f)(name \<mapsto> (the (variables f name))\<lparr>var_vals := v\<rparr>)\<rparr>"

text \<open>Intermediate values of \<open>write_hist_vars\<close> on a constant series: one tracer's slice
  \<open>tracer_vals_all[ind, :, :]\<close> (depth, time), its transpose (time, depth), the file after
  the six assignments for one tracer, and the four statistics of a tracer whose constant at
  depth \<open>d\<close> is \<open>c d\<close>.\<close>

definition tracer_slab :: "nat \<Rightarrow> nat \<Rightarrow> (nat \<Rightarrow> real) \<Rightarrow> real list" where
  "tracer_slab D T f = concat (map (\<lambda>d. replicate T (f d)) [0..<D])"




section \<open>Properties\<close>

subsection \<open>Time weights\<close>


lemma length_trapezoid_weights [simp]: "length (trapezoid_weights T) = T"
  by (simp add: trapezoid_weights_def)






subsection \<open>The stretching function and the generated thicknesses\<close>

lemma stretch_fcn_odd: "stretch_fcn (- x) = - stretch_fcn x"
  by (simp add: stretch_fcn_def)

lemma stretch_fcn_1 [simp]: "stretch_fcn 1 = 1"
  by (simp add: stretch_fcn_def)

lemma stretch_fcn_m1 [simp]: "stretch_fcn (- 1) = - 1"
  by (simp add: stretch_fcn_def)

lemma stretch_fcn_le_1:
  assumes "x \<le> 1"
  shows "stretch_fcn x \<le> 1"
proof -
  have eq: "1 - stretch_fcn x = (1 - x) ^ 3 * (3 * (x + 3 / 2) ^ 2 + 5 / 4) / 8"
    by (simp add: stretch_fcn_def power2_eq_square power3_eq_cube algebra_simps)
  have "0 \<le> (1 - x) ^ 3" using assms by simp
  moreover have "0 \<le> 3 * (x + 3 / 2) ^ 2 + 5 / 4" by (simp add: add_nonneg_nonneg)
  ultimately have "0 \<le> 1 - stretch_fcn x" unfolding eq by (simp add: mult_nonneg_nonneg)
  then show ?thesis by simp
qed

lemma stretch_fcn_ge_m1:
  assumes "- 1 \<le> x"
  shows "- 1 \<le> stretch_fcn x"
proof -
  have "stretch_fcn (- x) \<le> 1" using assms by (intro stretch_fcn_le_1) simp
  then show ?thesis by (simp add: stretch_fcn_odd)
qed

lemma coord_at_first [simp]: "coord_at n 0 = - 1"
  by (simp add: coord_at_def)

lemma coord_at_last [simp]:
  assumes "2 \<le> n"
  shows "coord_at n (n - 1) = 1"
proof -
  define a where "a = real n - 1"
  have r: "real (n - 1) = a" using assms by (simp add: a_def of_nat_diff)
  have "a \<noteq> 0" using assms by (simp add: a_def)
  then have "a * (2 / a) = 2" by simp
  then show ?thesis unfolding coord_at_def r a_def [symmetric] by linarith
qed

lemma coord_at_mirror:
  assumes "2 \<le> n" "i < n"
  shows "coord_at n (n - 1 - i) = - coord_at n i"
proof -
  have "real (n - 1 - i) = real n - 1 - real i" using assms by (simp add: of_nat_diff)
  moreover have "real n - 1 \<noteq> 0" using assms by simp
  ultimately show ?thesis by (simp add: coord_at_def field_simps)
qed

lemma coord_at_range:
  assumes "2 \<le> n" "i < n"
  shows "- 1 \<le> coord_at n i" "coord_at n i \<le> 1"
proof -
  have pos: "0 < real n - 1" using assms by simp
  have "real i \<le> real n - 1" using assms by (simp add: of_nat_diff)
  then have "real i * (2 / (real n - 1)) \<le> 2" using pos by (simp add: field_simps)
  then show "coord_at n i \<le> 1" by (simp add: coord_at_def)
  have "0 \<le> real i * (2 / (real n - 1))" using pos by simp
  then show "- 1 \<le> coord_at n i" by (simp add: coord_at_def)
qed

lemma gen_delta_eq:
  assumes "d_nlevs d = int n" "2 \<le> n" "1 \<le> d_delta_ratio_max d"
  shows "gen_delta d =
    Inr (map (\<lambda>i. delta_avg d + stretch_factor d * stretch_fcn (coord_at n i)) [0..<n])"
  using assms
  by (simp add: gen_delta_def np_linspace_def Let_def delta_avg_def stretch_factor_def
        coord_at_def comp_def)


lemma sum_stretch_zero:
  assumes "2 \<le> n"
  shows "(\<Sum>i<n. stretch_fcn (coord_at n i)) = 0"
proof -
  have "(\<Sum>i<n. stretch_fcn (coord_at n i)) = (\<Sum>i<n. stretch_fcn (coord_at n (n - Suc i)))"
    by (rule sum.nat_diff_reindex [symmetric])
  also have "\<dots> = (\<Sum>i<n. - stretch_fcn (coord_at n i))"
    using assms coord_at_mirror [of n] by (intro sum.cong) (auto simp: stretch_fcn_odd)
  also have "\<dots> = - (\<Sum>i<n. stretch_fcn (coord_at n i))" by (simp add: sum_negf)
  finally show ?thesis by simp
qed

lemma sum_gen_delta:
  assumes "d_nlevs d = int n" "2 \<le> n"
  shows "(\<Sum>i\<leftarrow>[0..<n]. delta_avg d + stretch_factor d * stretch_fcn (coord_at n i))
           = d_edge_end d - d_edge_start d"
proof -
  have "(\<Sum>i\<leftarrow>[0..<n]. delta_avg d + stretch_factor d * stretch_fcn (coord_at n i))
      = (\<Sum>i<n. delta_avg d + stretch_factor d * stretch_fcn (coord_at n i))"
    by (simp add: interv_sum_list_conv_sum_set_nat atLeast0LessThan)
  also have "\<dots> = real n * delta_avg d + stretch_factor d * (\<Sum>i<n. stretch_fcn (coord_at n i))"
    by (simp add: sum.distrib sum_distrib_left)
  also have "\<dots> = real n * delta_avg d" using assms by (simp add: sum_stretch_zero)
  also have "\<dots> = d_edge_end d - d_edge_start d" using assms by (simp add: delta_avg_def)
  finally show ?thesis .
qed

lemma length_cumsum_from [simp]: "length (cumsum_from a xs) = length xs"
  by (induction xs arbitrary: a) auto

lemma cumsum_from_eq_Nil [simp]: "cumsum_from a xs = [] \<longleftrightarrow> xs = []"
  by (cases xs) auto

lemma last_cumsum_from: "xs \<noteq> [] \<Longrightarrow> last (cumsum_from a xs) = a + sum_list xs"
proof (induction xs arbitrary: a)
  case Nil then show ?case by simp
next
  case (Cons x xs) then show ?case by (cases "xs = []") (auto simp: add.assoc)
qed

lemma nth_cumsum_from: "i < length xs \<Longrightarrow> cumsum_from a xs ! i = a + sum_list (take (Suc i) xs)"
proof (induction xs arbitrary: a i)
  case Nil then show ?case by simp
next
  case (Cons x xs) then show ?case by (cases i) (auto simp: add.assoc)
qed

lemma gen_edges_last:
  assumes "d_nlevs d = int n" "2 \<le> n" "1 \<le> d_delta_ratio_max d"
  shows "\<exists>delta. gen_delta d = Inr delta
     \<and> gen_edges d = Inr (d_edge_start d # map (\<lambda>c. d_edge_start d + c) (cumsum delta))
     \<and> sum_list delta = d_edge_end d - d_edge_start d
     \<and> (\<exists>es. gen_edges d = Inr es \<and> length es = n + 1 \<and> last es = d_edge_end d)"
proof -
  let ?dl = "map (\<lambda>i. delta_avg d + stretch_factor d * stretch_fcn (coord_at n i)) [0..<n]"
  have g: "gen_delta d = Inr ?dl" using assms by (rule gen_delta_eq)
  have s: "sum_list ?dl = d_edge_end d - d_edge_start d" using assms by (simp add: sum_gen_delta)
  have ne: "cumsum ?dl \<noteq> []" using assms(2) by (auto simp: cumsum_def simp flip: length_0_conv)
  have "last (map (\<lambda>c. d_edge_start d + c) (cumsum ?dl)) = d_edge_start d + sum_list ?dl"
    using ne assms(2) by (simp add: last_map cumsum_def last_cumsum_from)
  with g s ne show ?thesis
    by (simp add: gen_edges_def cumsum_def)
qed

lemma stretch_term_bounds:
  assumes "2 \<le> n" "i < n" "0 \<le> sf"
  shows "a - sf \<le> a + sf * stretch_fcn (coord_at n i)"
    and "a + sf * stretch_fcn (coord_at n i) \<le> a + sf"
proof -
  have lo: "- 1 \<le> stretch_fcn (coord_at n i)"
    using assms coord_at_range by (intro stretch_fcn_ge_m1) auto
  have hi: "stretch_fcn (coord_at n i) \<le> 1"
    using assms coord_at_range by (intro stretch_fcn_le_1) auto
  have "sf * (- 1) \<le> sf * stretch_fcn (coord_at n i)"
    using lo assms(3) by (rule mult_left_mono)
  then show "a - sf \<le> a + sf * stretch_fcn (coord_at n i)" by simp
  have "sf * stretch_fcn (coord_at n i) \<le> sf * 1"
    using hi assms(3) by (rule mult_left_mono)
  then show "a + sf * stretch_fcn (coord_at n i) \<le> a + sf" by simp
qed

lemma thickness_extremes:
  fixes a sf :: real
  assumes n: "2 \<le> n" and sf: "0 \<le> sf"
  defines "dl \<equiv> map (\<lambda>i. a + sf * stretch_fcn (coord_at n i)) [0..<n]"
  shows "Max (set dl) = a + sf" and "Min (set dl) = a - sf"
proof -
  have fin: "finite (set dl)" by simp
  have top: "a + sf \<in> set dl"
  proof -
    have "a + sf * stretch_fcn (coord_at n (n - 1)) \<in> set dl"
      unfolding dl_def using n by (auto intro!: image_eqI [where x = "n - 1"])
    then show ?thesis unfolding coord_at_last [OF n] by simp
  qed
  have bot: "a - sf \<in> set dl"
  proof -
    have "a + sf * stretch_fcn (coord_at n 0) \<in> set dl"
      unfolding dl_def using n by (auto intro!: image_eqI [where x = 0])
    then show ?thesis by simp
  qed
  have le: "y \<le> a + sf" if "y \<in> set dl" for y
    using that stretch_term_bounds(2) [OF n _ sf] by (auto simp: dl_def)
  have ge: "a - sf \<le> y" if "y \<in> set dl" for y
    using that stretch_term_bounds(1) [OF n _ sf] by (auto simp: dl_def)
  show "Max (set dl) = a + sf" using fin le top by (rule Max_eqI)
  show "Min (set dl) = a - sf" using fin ge bot by (rule Min_eqI)
qed

lemma ratio_of_extremes:
  assumes "0 < a" "1 \<le> (r::real)"
  shows "(a + a * (r - 1) / (r + 1)) / (a - a * (r - 1) / (r + 1)) = r"
proof -
  have r1: "r + 1 \<noteq> 0" using assms by simp
  have lo: "a - a * (r - 1) / (r + 1) = 2 * a / (r + 1)"
    using r1 by (simp add: field_simps)
  have hi: "a + a * (r - 1) / (r + 1) = 2 * a * r / (r + 1)"
    using r1 by (simp add: field_simps)
  show ?thesis unfolding lo hi using assms r1 by simp
qed

lemma delta_avg_pos:
  assumes "d_nlevs d = int n" "1 \<le> n" "d_edge_start d < d_edge_end d"
  shows "0 < delta_avg d"
  using assms by (simp add: delta_avg_def)

lemma stretch_factor_nonneg:
  assumes "0 \<le> delta_avg d" "1 \<le> d_delta_ratio_max d"
  shows "0 \<le> stretch_factor d"
  using assms by (simp add: stretch_factor_def)



lemma axis_of_edges_len: "axis_len (axis_of_edges name un es prov) = int (length es) - 1"
  by (simp add: axis_len_def axis_of_edges_def Let_def)

lemma axis_of_edges_edges [simp]: "edges (axis_of_edges name un es prov) = es"
  by (simp add: axis_of_edges_def Let_def)

lemma axis_of_edges_delta:
  "delta (axis_of_edges name un es prov) = map2 (\<lambda>hi lo. hi - lo) (tl es) (butlast es)"
  by (simp add: axis_of_edges_def Let_def)




lemma spatial_axis_init_cases:
  assumes "spatial_axis_init fs an fn dd = Inr ax"
  shows "\<exists>name un es prov. ax = axis_of_edges name un es prov"
  using assms
  by (auto simp: spatial_axis_init_def split: option.splits if_splits sum.splits)



text \<open>
  C1.  The edges are the cumulative sum of the thicknesses, started at \<open>edge_start\<close>, by the
  definition of \<open>gen_edges\<close>; with two or more layers the last edge is \<open>edge_end\<close>
  (\<open>gen_edges_last\<close> above).  With a single layer the only sample point is \<open>-1\<close>, the
  stretching function does not average to zero there, and the last edge falls short of
  \<open>edge_end\<close>: for \<open>nlevs = 1\<close>, \<open>edge_start = 0\<close>, \<open>edge_end = 100\<close> and
  \<open>delta_ratio_max = 3\<close> the edges are \<open>[0, 50]\<close>.
\<close>

theorem gen_edges_single_layer_misses_edge_end:
  "gen_edges \<lparr>d_axisname = ''depth'', d_units = ''m'', d_nlevs = 1, d_edge_start = 0,
              d_edge_end = 100, d_delta_ratio_max = 3\<rparr> = Inr [0, 50]"
  by (simp add: gen_edges_def gen_delta_def np_linspace_def stretch_fcn_def cumsum_def)

text \<open>
  C2, as stated, fails: a single layer has ratio 1 whatever \<open>delta_ratio_max\<close> is, and on an
  axis that runs from a larger \<open>edge_start\<close> to a smaller \<open>edge_end\<close> the thicknesses are
  negative and the ratio of the largest to the smallest is \<open>1 / delta_ratio_max\<close>.
\<close>

theorem thickness_ratio_counterexample:
  "(\<exists>delta. gen_delta \<lparr>d_axisname = ''depth'', d_units = ''m'', d_nlevs = 1, d_edge_start = 0,
                        d_edge_end = 100, d_delta_ratio_max = 3\<rparr> = Inr delta
      \<and> Max (set delta) / Min (set delta) \<noteq> 3)
   \<and> (\<exists>delta. gen_delta \<lparr>d_axisname = ''depth'', d_units = ''m'', d_nlevs = 2, d_edge_start = 100,
                        d_edge_end = 0, d_delta_ratio_max = 3\<rparr> = Inr delta
      \<and> Max (set delta) / Min (set delta) \<noteq> 3)"
  by (simp add: gen_delta_def np_linspace_def stretch_fcn_def numeral_2_eq_2)

text \<open>
  C2, amended.  For a parametric definition with \<open>nlevs \<ge> 2\<close>, \<open>delta_ratio_max \<ge> 1\<close> and
  \<open>edge_start < edge_end\<close>, the thicknesses that \<open>_gen_edges\<close> computes satisfy
  \<open>max(delta) / min(delta) = delta_ratio_max\<close>.
\<close>

theorem thickness_ratio:
  assumes "d_nlevs d = int n" "2 \<le> n" "1 \<le> d_delta_ratio_max d"
    and "d_edge_start d < d_edge_end d"
  shows "\<exists>delta. gen_delta d = Inr delta
           \<and> Max (set delta) / Min (set delta) = d_delta_ratio_max d"
proof -
  let ?dl = "map (\<lambda>i. delta_avg d + stretch_factor d * stretch_fcn (coord_at n i)) [0..<n]"
  have pos: "0 < delta_avg d" using assms by (intro delta_avg_pos [of d n]) auto
  have sf: "0 \<le> stretch_factor d" using pos assms(3) by (intro stretch_factor_nonneg) auto
  have "Max (set ?dl) / Min (set ?dl)
      = (delta_avg d + stretch_factor d) / (delta_avg d - stretch_factor d)"
    using thickness_extremes [OF assms(2) sf, of "delta_avg d"] by simp
  also have "\<dots> = d_delta_ratio_max d"
    unfolding stretch_factor_def using pos assms(3) by (rule ratio_of_extremes)
  finally show ?thesis using gen_delta_eq [OF assms(1-3)] by simp
qed

theorem thickness_ratio_witness:
  "\<exists>delta. gen_delta \<lparr>d_axisname = ''depth'', d_units = ''m'', d_nlevs = 4, d_edge_start = 0,
                        d_edge_end = 100, d_delta_ratio_max = 3\<rparr> = Inr delta
      \<and> Max (set delta) / Min (set delta) = 3"
  using thickness_ratio
    [of "\<lparr>d_axisname = ''depth'', d_units = ''m'', d_nlevs = 4, d_edge_start = 0,
           d_edge_end = 100, d_delta_ratio_max = 3\<rparr>" 4]
  by simp







subsection \<open>Dumping with an unknown action\<close>

text \<open>
  C9.  In both variants, \<open>dump\<close> with an action other than "define" and "write" raises a
  ValueError whose argument holds the action, and the file is as it was: nothing was defined
  and nothing written.
\<close>

theorem dump_unknown_action_raises:
  "action \<noteq> ''define'' \<and> action \<noteq> ''write'' \<longrightarrow>
     tp_dump tp_self fptr action
       = (Some (ValueError (Tuple [''unknown action=%s'', action])), fptr)
   \<and> cp_dump cp_self fptr action
       = (Some (ValueError (Tuple [''unknown action='', action])), fptr)"
  by (simp add: tp_dump_def cp_dump_def)

theorem dump_unknown_action_raises_witness:
  "\<forall>tp_self cp_self fptr.
     tp_dump tp_self fptr ''append''
       = (Some (ValueError (Tuple [''unknown action=%s'', ''append''])), fptr)
   \<and> cp_dump cp_self fptr ''append''
       = (Some (ValueError (Tuple [''unknown action='', ''append''])), fptr)"
  using dump_unknown_action_raises [of "''append''"] by simp

subsection \<open>The integral over the axis\<close>

lemma block_concat:
  "\<forall>r \<in> set rs. length r = m \<Longrightarrow> j < length rs \<Longrightarrow> block m (concat rs) j = rs ! j"
proof (induction rs arbitrary: j)
  case Nil then show ?case by simp
next
  case (Cons r rs)
  show ?case
  proof (cases j)
    case 0 with Cons.prems show ?thesis by (simp add: block_def)
  next
    case (Suc j')
    with Cons.prems have "block m (concat rs) j' = rs ! j'" by (intro Cons.IH) auto
    with Suc Cons.prems show ?thesis by (simp add: block_def)
  qed
qed

lemma length_block: "Suc j * m \<le> length xs \<Longrightarrow> length (block m xs j) = m"
  by (simp add: block_def)

lemma nth_block: "i < m \<Longrightarrow> Suc j * m \<le> length xs \<Longrightarrow> block m xs j ! i = xs ! (j * m + i)"
  by (simp add: block_def)

lemma sum_list_map2_nth:
  "length xs = n \<Longrightarrow> length ys = n \<Longrightarrow>
   sum_list (map2 f xs ys) = (\<Sum>i\<leftarrow>[0..<n]. f (xs ! i) (ys ! i))"
proof -
  assume a: "length xs = n" "length ys = n"
  have "map2 f xs ys = map (\<lambda>i. f (xs ! i) (ys ! i)) [0..<n]"
    using a by (auto simp: list_eq_iff_nth_eq)
  then show ?thesis by simp
qed

lemma prod_list_butlast_last:
  "s \<noteq> [] \<Longrightarrow> prod_list (butlast s) * last s = prod_list (s :: nat list)"
  by (induction s) auto

lemma int_vals_mid_of_delta:
  assumes wf: "wf_ndarray vals" and ne: "shape vals \<noteq> []"
    and len: "last (shape vals) = length (delta ax)"
  shows "int_vals_mid ax vals = Inr (weighted_sum_last (delta ax) vals)"
proof -
  let ?N = "length (delta ax)"
  let ?L = "prod_list (butlast (shape vals))"
  let ?rows = "map (\<lambda>j. map2 (\<lambda>x v. x * v) (delta ax) (block ?N (data vals) j)) [0..<?L]"
  have total: "length (data vals) = ?L * ?N"
    using wf ne len prod_list_butlast_last [of "shape vals"] by (simp add: wf_ndarray_def)
  have inrange: "Suc j * ?N \<le> length (data vals)" if "j < ?L" for j
  proof -
    from that have "Suc j \<le> ?L" by simp
    then have "Suc j * ?N \<le> ?L * ?N" by (rule mult_le_mono1)
    with total show ?thesis by simp
  qed
  have rowlen: "\<forall>r \<in> set ?rows. length r = ?N"
    using inrange by (auto simp: length_block)
  have row: "sum_list (block ?N (concat ?rows) j)
      = (\<Sum>i\<leftarrow>[0..<?N]. delta ax ! i * data vals ! (j * ?N + i))" if "j < ?L" for j
  proof -
    have "block ?N (concat ?rows) j = ?rows ! j"
      using rowlen that by (intro block_concat) auto
    also have "\<dots> = map2 (\<lambda>x v. x * v) (delta ax) (block ?N (data vals) j)"
      using that by simp
    finally have "sum_list (block ?N (concat ?rows) j)
        = (\<Sum>i\<leftarrow>[0..<?N]. delta ax ! i * block ?N (data vals) j ! i)"
      using inrange [OF that] by (simp add: sum_list_map2_nth length_block)
    also have "\<dots> = (\<Sum>i\<leftarrow>[0..<?N]. delta ax ! i * data vals ! (j * ?N + i))"
      using inrange [OF that] by (intro arg_cong [where f = sum_list] map_cong) (auto simp: nth_block)
    finally show ?thesis .
  qed
  have "np_mul_1d (delta ax) vals = Inr \<lparr>shape = shape vals, data = concat ?rows\<rparr>"
    using ne len by (simp add: np_mul_1d_def Let_def map_map comp_def)
  then show ?thesis
    using ne len row
    by (simp add: int_vals_mid_def np_sum_last_def weighted_sum_last_def cong: map_cong)
qed

text \<open>
  C6.  For an array \<open>vals\<close> whose last axis has the length of a constructed axis,
  \<open>int_vals_mid(vals)\<close> returns, for every position of the leading axes, however many
  there are, the sum of \<open>delta[i] * vals[..., i]\<close> over the last axis.
\<close>

theorem int_vals_mid_is_weighted_sum:
  assumes "spatial_axis_init fs axisname_arg fname defn_dict_arg = Inr ax"
    and "wf_ndarray vals" and "shape vals \<noteq> []"
    and "int (last (shape vals)) = axis_len ax"
  shows "int_vals_mid ax vals = Inr (weighted_sum_last (delta ax) vals)"
proof -
  obtain name un es prov where ax: "ax = axis_of_edges name un es prov"
    using assms(1) spatial_axis_init_cases by blast
  have "last (shape vals) = length (delta ax)"
    using assms(4) by (simp add: ax axis_of_edges_len axis_of_edges_delta)
  with assms(2,3) show ?thesis by (rule int_vals_mid_of_delta)
qed

theorem int_vals_mid_is_weighted_sum_witness:
  "int_vals_mid (axis_of_edges ''depth'' ''m'' [0, 10, 30] None)
       \<lparr>shape = [2, 2], data = [1, 2, 3, 4]\<rparr>
     = Inr \<lparr>shape = [2], data = [50, 110]\<rparr>"
proof -
  let ?fs = "[''grid.nc'' \<mapsto>
        \<lparr>dimensions = [''depth_edges'' \<mapsto> 3],
         variables = [''depth_edges'' \<mapsto>
           \<lparr>var_dimensions = [''depth_edges''], var_attrs = [''units'' \<mapsto> ''m''],
            var_vals = \<lparr>shape = [3], data = [0, 10, 30]\<rparr>\<rparr>],
         file_attrs = Map.empty\<rparr>]"
  have init: "spatial_axis_init ?fs (Some ''depth'') (Some ''grid.nc'') None
      = Inr (axis_of_edges ''depth'' ''m'' [0, 10, 30] None)"
    by (simp add: spatial_axis_init_def)
  have "int_vals_mid (axis_of_edges ''depth'' ''m'' [0, 10, 30] None)
          \<lparr>shape = [2, 2], data = [1, 2, 3, 4]\<rparr>
      = Inr (weighted_sum_last (delta (axis_of_edges ''depth'' ''m'' [0, 10, 30] None))
          \<lparr>shape = [2, 2], data = [1, 2, 3, 4]\<rparr>)"
    using init by (rule int_vals_mid_is_weighted_sum) (simp_all add: wf_ndarray_def axis_of_edges_len)
  then show ?thesis
    by (simp add: weighted_sum_last_def axis_of_edges_delta numeral_2_eq_2)
qed

subsection \<open>Reading tracers whose stored dimensions differ or are too many\<close>

lemma dict_set_new: "k \<notin> fst ` set d \<Longrightarrow> dict_set d k v = d @ [(k, v)]"
  by (induction d) auto

lemma dims_dict_declared:
  "\<forall>n \<in> set ns. dimensions fptr n \<noteq> None \<Longrightarrow> \<exists>d'. dims_dict fptr ns d = Inr d'"
  by (induction ns arbitrary: d) auto

lemma dims_dict_distinct:
  assumes "distinct ns" "set ns \<inter> fst ` set d = {}" "\<forall>n \<in> set ns. dimensions fptr n \<noteq> None"
  shows "dims_dict fptr ns d = Inr (d @ map (\<lambda>n. (n, the (dimensions fptr n))) ns)"
  using assms
proof (induction ns arbitrary: d)
  case Nil then show ?case by simp
next
  case (Cons n ns)
  obtain l where l: "dimensions fptr n = Some l" using Cons.prems(3) by auto
  have new: "dict_set d n l = d @ [(n, l)]" using Cons.prems(2) by (intro dict_set_new) auto
  have "dims_dict fptr ns (d @ [(n, l)])
      = Inr ((d @ [(n, l)]) @ map (\<lambda>n. (n, the (dimensions fptr n))) ns)"
    using Cons.prems by (intro Cons.IH) auto
  then show ?case using l new by simp
qed

lemma dict_eq_refl:
  "distinct (map fst d) \<Longrightarrow> dict_eq d d"
  by (auto simp: dict_eq_def list_all_iff)

lemma cp_check_dims_mismatch:
  assumes "\<forall>t \<in> set ts. variables fptr (t @ suffix) \<noteq> None"
    and "\<exists>t \<in> set ts. var_dimensions (the (variables fptr (t @ suffix))) \<noteq> var_dimensions var0"
  shows "cp_check_dims fptr suffix var0 m f ts = Inl (ValueError (Str (msg_not_same m f)))"
  using assms
proof (induction ts)
  case Nil then show ?case by simp
next
  case (Cons t ts)
  obtain v where v: "variables fptr (t @ suffix) = Some v" using Cons.prems(1) by auto
  show ?case
  proof (cases "var_dimensions v = var_dimensions var0")
    case False with v show ?thesis by simp
  next
    case True
    then have "\<exists>t \<in> set ts. var_dimensions (the (variables fptr (t @ suffix)))
        \<noteq> var_dimensions var0"
      using Cons.prems(2) v by auto
    then have "cp_check_dims fptr suffix var0 m f ts = Inl (ValueError (Str (msg_not_same m f)))"
      using Cons.prems(1) by (intro Cons.IH) auto
    with v True show ?thesis by simp
  qed
qed

lemma cp_check_dims_same:
  assumes "\<forall>t \<in> set ts. \<exists>v. variables fptr (t @ suffix) = Some v
             \<and> var_dimensions v = var_dimensions var0"
  shows "cp_check_dims fptr suffix var0 m f ts = Inr ()"
  using assms by (induction ts) auto

lemma tp_check_dims_same:
  assumes "\<forall>t \<in> set ts. extract_dimensions fptr t = Inr dims" "dict_eq dims dims"
  shows "tp_check_dims fptr dims m f ts = Inr ()"
  using assms by (induction ts) auto

lemma cp_read_vals_mismatch:
  assumes opened: "fs fname = Some fptr"
    and names: "tracer_names tracers = first_name # rest"
    and stored: "\<forall>t \<in> set (tracer_names tracers). variables fptr (t @ ''_CUR'') \<noteq> None"
    and declared: "\<forall>n \<in> set (var_dimensions (the (variables fptr (first_name @ ''_CUR'')))).
                     dimensions fptr n \<noteq> None"
    and differs: "\<exists>t \<in> set (tracer_names tracers).
        var_dimensions (the (variables fptr (t @ ''_CUR'')))
          \<noteq> var_dimensions (the (variables fptr (first_name @ ''_CUR'')))"
  shows "cp_read_vals fs tracers tracer_module_name fname
           = Inl (ValueError (Str (msg_not_same tracer_module_name fname)))"
proof -
  obtain var0 where var0: "variables fptr (first_name @ ''_CUR'') = Some var0"
    using stored names by auto
  obtain dims where dims: "dims_dict fptr (var_dimensions var0) [] = Inr dims"
    using declared var0 dims_dict_declared by fastforce
  have "cp_check_dims fptr ''_CUR'' var0 tracer_module_name fname (tracer_names tracers)
      = Inl (ValueError (Str (msg_not_same tracer_module_name fname)))"
    using stored differs var0 by (intro cp_check_dims_mismatch) auto
  then show ?thesis
    using opened names var0 dims by (simp add: cp_read_vals_def Let_def)
qed

lemma cp_read_vals_ndim:
  assumes opened: "fs fname = Some fptr"
    and names: "tracer_names tracers = first_name # rest"
    and var0: "variables fptr (first_name @ ''_CUR'') = Some var0"
    and same: "\<forall>t \<in> set (tracer_names tracers). \<exists>v. variables fptr (t @ ''_CUR'') = Some v
                 \<and> var_dimensions v = var_dimensions var0"
    and declared: "\<forall>n \<in> set (var_dimensions var0). dimensions fptr n \<noteq> None"
    and dist: "distinct (var_dimensions var0)"
    and many: "3 < length (var_dimensions var0)"
  shows "cp_read_vals fs tracers tracer_module_name fname
           = Inl (ValueError (Str (msg_ndim tracer_module_name fname (length (var_dimensions var0)))))"
proof -
  have dims: "dims_dict fptr (var_dimensions var0) []
      = Inr ([] @ map (\<lambda>n. (n, the (dimensions fptr n))) (var_dimensions var0))"
    using dist declared by (intro dims_dict_distinct) auto
  have chk: "cp_check_dims fptr ''_CUR'' var0 tracer_module_name fname (tracer_names tracers) = Inr ()"
    using same by (rule cp_check_dims_same)
  show ?thesis
    using opened names var0 dims chk many by (simp add: cp_read_vals_def Let_def)
qed

lemma tp_read_vals_ndim:
  assumes opened: "fs fname = Some fptr"
    and fname: "fname \<noteq> ''zeros''" "fname \<noteq> ''gen_init_iterate''"
    and names: "tracer_names tracers = first_name # rest"
    and var0: "variables fptr first_name = Some var0"
    and same: "\<forall>t \<in> set (tracer_names tracers). \<exists>v. variables fptr t = Some v
                 \<and> var_dimensions v = var_dimensions var0"
    and declared: "\<forall>n \<in> set (var_dimensions var0). dimensions fptr n \<noteq> None"
    and dist: "distinct (var_dimensions var0)"
    and many: "3 < length (var_dimensions var0)"
  shows "tp_read_vals fs tracers depth tracer_module_name fname
           = Inl (ValueError (Str (msg_ndim tracer_module_name fname (length (var_dimensions var0)))))"
proof -
  let ?dims = "map (\<lambda>n. (n, the (dimensions fptr n))) (var_dimensions var0)"
  have dims: "dims_dict fptr (var_dimensions var0) [] = Inr ([] @ ?dims)"
    using dist declared by (intro dims_dict_distinct) auto
  have ex0: "extract_dimensions fptr first_name = Inr ?dims"
    using var0 dims by (simp add: extract_dimensions_def)
  have ex: "\<forall>t \<in> set (tracer_names tracers). extract_dimensions fptr t = Inr ?dims"
    using same dims by (auto simp: extract_dimensions_def)
  have "dict_eq ?dims ?dims" using dist by (intro dict_eq_refl) (simp add: comp_def)
  with ex have chk: "tp_check_dims fptr ?dims tracer_module_name fname (tracer_names tracers) = Inr ()"
    by (rule tp_check_dims_same)
  show ?thesis
    using opened fname names ex0 chk many
    by (simp add: tp_read_vals_def tp_read_file_def Let_def)
qed

text \<open>
  C7.  The cime\_pop variant compares the tuples of dimension names and raises
  (\<open>cp_read_vals_mismatch\<close> above).  The test\_problem variant compares dicts, and two dicts
  with the same keys and values are equal whatever their order: for two tracers stored on
  \<open>(x, y)\<close> and on \<open>(y, x)\<close>, both of length 2, \<open>_read_vals\<close> raises nothing and returns
  the second tracer's values laid out as if they were stored on \<open>(x, y)\<close>.
\<close>

theorem tp_read_vals_accepts_permuted_dimensions:
  "tp_read_vals
     [''iterate.nc'' \<mapsto>
        \<lparr>dimensions = [''x'' \<mapsto> 2, ''y'' \<mapsto> 2],
         variables = [''po4'' \<mapsto> \<lparr>var_dimensions = [''x'', ''y''], var_attrs = Map.empty,
                                   var_vals = \<lparr>shape = [2, 2], data = [1, 2, 3, 4]\<rparr>\<rparr>,
                      ''dop'' \<mapsto> \<lparr>var_dimensions = [''y'', ''x''], var_attrs = Map.empty,
                                   var_vals = \<lparr>shape = [2, 2], data = [5, 6, 7, 8]\<rparr>\<rparr>],
         file_attrs = Map.empty\<rparr>]
     [(''po4'', \<lparr>tm_attrs = [], init_iterate_vals = None, init_iterate_val_depths = None,
                 shadows = None\<rparr>),
      (''dop'', \<lparr>tm_attrs = [], init_iterate_vals = None, init_iterate_val_depths = None,
                 shadows = None\<rparr>)]
     (axis_of_edges ''depth'' ''m'' [0, 10] None) ''phosphorus'' ''iterate.nc''
   = Inr (\<lparr>shape = [2, 2, 2], data = [1, 2, 3, 4, 5, 6, 7, 8]\<rparr>, [(''x'', 2), (''y'', 2)])"
  by (simp add: tp_read_vals_def tp_read_file_def tracer_names_def tracer_cnt_def
        extract_dimensions_def dict_eq_def np_empty_def np_zeros_def enumerate_eq_zip
        np_assign_row_def np_broadcast_to_def block_def upt_rec numeral_2_eq_2)

lemma cp_read_vals_rejects_permuted_dimensions:
  "cp_read_vals
     [''iterate.nc'' \<mapsto>
        \<lparr>dimensions = [''x'' \<mapsto> 2, ''y'' \<mapsto> 2],
         variables = [''po4_CUR'' \<mapsto> \<lparr>var_dimensions = [''x'', ''y''], var_attrs = Map.empty,
                                   var_vals = \<lparr>shape = [2, 2], data = [1, 2, 3, 4]\<rparr>\<rparr>,
                      ''dop_CUR'' \<mapsto> \<lparr>var_dimensions = [''y'', ''x''], var_attrs = Map.empty,
                                   var_vals = \<lparr>shape = [2, 2], data = [5, 6, 7, 8]\<rparr>\<rparr>],
         file_attrs = Map.empty\<rparr>]
     [(''po4'', \<lparr>tm_attrs = [], init_iterate_vals = None, init_iterate_val_depths = None,
                 shadows = None\<rparr>),
      (''dop'', \<lparr>tm_attrs = [], init_iterate_vals = None, init_iterate_val_depths = None,
                 shadows = None\<rparr>)]
     ''phosphorus'' ''iterate.nc''
   = Inl (ValueError (Str (msg_not_same ''phosphorus'' ''iterate.nc'')))"
  by (simp add: cp_read_vals_def tracer_names_def tracer_cnt_def Let_def)

text \<open>
  C8.  Both variants count the entries of the dict of dimensions.  For tracers stored on
  more than three dimensions with distinct names they raise the ValueError that cites the
  number of dimensions (\<open>cp_read_vals_ndim\<close> and \<open>tp_read_vals_ndim\<close> above).  A dimension
  that a variable uses twice is one entry of the dict: a tracer stored on \<open>(x, x, y, z)\<close>
  with \<open>x\<close> of length 1 has four stored dimensions, and \<open>_read_vals\<close> raises nothing.
\<close>

theorem cp_read_vals_accepts_repeated_dimension:
  "cp_read_vals
     [''iterate.nc'' \<mapsto>
        \<lparr>dimensions = [''x'' \<mapsto> 1, ''y'' \<mapsto> 2, ''z'' \<mapsto> 2],
         variables = [''po4_CUR'' \<mapsto> \<lparr>var_dimensions = [''x'', ''x'', ''y'', ''z''],
                                   var_attrs = Map.empty,
                                   var_vals = \<lparr>shape = [1, 1, 2, 2], data = [1, 2, 3, 4]\<rparr>\<rparr>],
         file_attrs = Map.empty\<rparr>]
     [(''po4'', \<lparr>tm_attrs = [], init_iterate_vals = None, init_iterate_val_depths = None,
                 shadows = None\<rparr>)]
     ''phosphorus'' ''iterate.nc''
   = Inr (\<lparr>shape = [1, 1, 2, 2], data = [1, 2, 3, 4]\<rparr>, [(''x'', 1), (''y'', 2), (''z'', 2)])"
  by (simp add: cp_read_vals_def tracer_names_def tracer_cnt_def Let_def
        np_empty_def np_zeros_def enumerate_eq_zip
        np_assign_row_def np_broadcast_to_def block_def upt_rec numeral_2_eq_2)

lemma tp_read_vals_accepts_repeated_dimension:
  "tp_read_vals
     [''iterate.nc'' \<mapsto>
        \<lparr>dimensions = [''x'' \<mapsto> 1, ''y'' \<mapsto> 2, ''z'' \<mapsto> 2],
         variables = [''po4'' \<mapsto> \<lparr>var_dimensions = [''x'', ''x'', ''y'', ''z''],
                                   var_attrs = Map.empty,
                                   var_vals = \<lparr>shape = [1, 1, 2, 2], data = [1, 2, 3, 4]\<rparr>\<rparr>],
         file_attrs = Map.empty\<rparr>]
     [(''po4'', \<lparr>tm_attrs = [], init_iterate_vals = None, init_iterate_val_depths = None,
                 shadows = None\<rparr>)]
     (axis_of_edges ''depth'' ''m'' [0, 10] None) ''phosphorus'' ''iterate.nc''
   = Inr (\<lparr>shape = [1, 1, 2, 2], data = [1, 2, 3, 4]\<rparr>, [(''x'', 1), (''y'', 2), (''z'', 2)])"
  by (simp add: tp_read_vals_def tp_read_file_def tracer_names_def tracer_cnt_def
        extract_dimensions_def dict_eq_def np_empty_def np_zeros_def enumerate_eq_zip
        np_assign_row_def np_broadcast_to_def block_def upt_rec numeral_2_eq_2)

subsection \<open>History variables of a series that is constant in time\<close>

lemma length_concat_const:
  "\<forall>r \<in> set rs. length r = m \<Longrightarrow> length (concat rs) = length rs * m"
  by (induction rs) auto



lemma length_tracer_slab [simp]: "length (tracer_slab D T f) = D * T"
  unfolding tracer_slab_def by (subst length_concat_const [where m = T]) auto















lemma nc_put_declared:
  "variables f name \<noteq> None \<Longrightarrow> nc_put name v f = (None, put_vals name v f)"
  by (auto simp: nc_put_def put_vals_def)

lemma variables_put_vals:
  "variables (put_vals n v f) n' \<noteq> None \<longleftrightarrow> n' = n \<or> variables f n' \<noteq> None"
  by (simp add: put_vals_def)













end
